theory Spec2Isabelle
  imports Main "HOL-Library.AList"
begin

section \<open>The Python code executor (app/tool/python\_execute.py)\<close>

text \<open>
  \<^verbatim>\<open>PythonExecute.execute\<close> checks the syntax of a snippet, runs it in a worker process
  (\<^verbatim>\<open>multiprocessing.Process\<close> with target \<^verbatim>\<open>_run_code\<close>), waits for the worker up to
  a timeout and returns a dictionary of five fields.

  The Python interpreter and the operating system are outside the source. They are taken
  as a parameter, the record \<open>host\<close>: what \<^verbatim>\<open>ast.parse\<close> answers, what \<^verbatim>\<open>exec\<close> of a snippet
  does, which paths are directories, what \<^verbatim>\<open>os.chdir\<close> answers, what
  \<^verbatim>\<open>traceback.format_exc\<close> prints and how long a worker needs to start. Every theorem
  holds for every host.

  Left out: a snippet that reaches into the objects of the tool itself (the frames of
  \<^verbatim>\<open>_run_code\<close>, the proxy of the shared dictionary), a write to the shared
  dictionary that fails, and \<^verbatim>\<open>os.getcwd\<close> failing at line 43.
\<close>

subsection \<open>Data\<close>

type_synonym path = string

text \<open>Python values as far as the namespace of a snippet needs them.\<close>

datatype pyval = PyInt int | PyStr string | PyDict "(string \<times> pyval) list"

text \<open>A Python dictionary with string keys: an association list, keys unique.\<close>

type_synonym namespace = "(string \<times> pyval) list"

text \<open>What \<^verbatim>\<open>sys.stdout\<close> or \<^verbatim>\<open>sys.stderr\<close> of a process is bound to.\<close>

datatype stream = Console | Output_buffer | Error_buffer

text \<open>
  The state of one operating-system process, as far as the tool reads or writes it: the
  working directory (\<^verbatim>\<open>os.getcwd\<close>, \<^verbatim>\<open>os.chdir\<close>), the two stream bindings and
  the dictionary of built-in names (\<^verbatim>\<open>__builtins__\<close>).
\<close>

record process =
  cwd :: path
  sys_stdout :: stream
  sys_stderr :: stream
  builtins :: namespace

text \<open>The dictionary that \<^verbatim>\<open>execute\<close> returns.\<close>

record result =
  stdout :: string
  stderr :: string
  exit_code :: int
  success :: bool
  observation :: string

text \<open>
  What \<^verbatim>\<open>exec(code, safe_globals, safe_globals)\<close> does inside the worker: the effects
  on the worker in their order, how the call ends, the whole seconds that pass until
  then, and how long the worker process stays alive after \<^verbatim>\<open>_run_code\<close> is over
  (threads the snippet started that are not daemons keep it alive; \<open>None\<close> is for ever).
  \<^item> \<open>Returns\<close>: \<^verbatim>\<open>exec\<close> returns.
  \<^item> \<open>Raises m t\<close>: an exception of class \<^verbatim>\<open>Exception\<close> with \<^verbatim>\<open>str(e) = m\<close>, for
    which \<^verbatim>\<open>traceback.format_exc()\<close> prints \<open>t\<close>.
  \<^item> \<open>Raises_unprintable t\<close>: an exception of class \<^verbatim>\<open>Exception\<close> whose
    \<^verbatim>\<open>__str__\<close> raises; \<^verbatim>\<open>traceback.format_exc()\<close> still prints \<open>t\<close>.
  \<^item> \<open>Exits\<close>: an exception outside \<^verbatim>\<open>Exception\<close> (\<^verbatim>\<open>SystemExit\<close>,
    \<^verbatim>\<open>KeyboardInterrupt\<close>, \<^verbatim>\<open>GeneratorExit\<close>).
  \<^item> \<open>Killed\<close>: the process ends at once (\<^verbatim>\<open>os._exit\<close>, a fatal signal).
  \<^item> \<open>Hangs\<close>: \<^verbatim>\<open>exec\<close> never comes back.

  The effects: text written to \<^verbatim>\<open>sys.stdout\<close> and to \<^verbatim>\<open>sys.stderr\<close>, a change of the
  working directory (to the absolute path given), a name bound in the namespace, and
  \<^verbatim>\<open>sys.stdout.close()\<close> and \<^verbatim>\<open>sys.stderr.close()\<close>.
\<close>

datatype effect =
    Print string
  | Print_err string
  | Chdir path
  | Bind string pyval
  | Close_stdout
  | Close_stderr

datatype ending =
    Returns
  | Raises string string
  | Raises_unprintable string
  | Exits
  | Killed
  | Hangs

record behaviour =
  effects :: "effect list"
  ending :: ending
  seconds :: nat
  lingers :: "nat option"

text \<open>
  The host. \<open>ast_parse code\<close> is \<open>None\<close> when \<^verbatim>\<open>ast.parse(code)\<close> returns, and
  \<open>Some (m, t)\<close> when it raises \<^verbatim>\<open>SyntaxError\<close> with \<^verbatim>\<open>str(e) = m\<close> and
  \<^verbatim>\<open>traceback.format_exc() = t\<close>. \<open>exec_code code globals p\<close> is the behaviour of the
  snippet started in process \<open>p\<close> with the namespace \<open>globals\<close>. \<open>isdir d\<close> is
  \<^verbatim>\<open>os.path.isdir(d)\<close> in the worker. \<open>os_chdir c d\<close> is \<^verbatim>\<open>os.chdir(d)\<close> in a process
  with working directory \<open>c\<close>: the new working directory (absolute, so a relative \<open>d\<close>
  is resolved against \<open>c\<close>), or the message and traceback of the \<^verbatim>\<open>OSError\<close> raised.
  \<open>format_exc m\<close> is the traceback of the \<^verbatim>\<open>FileNotFoundError\<close> with message \<open>m\<close>
  raised at line 57. \<open>closed_exc\<close> is the message and traceback of the
  \<^verbatim>\<open>ValueError\<close> that \<^verbatim>\<open>getvalue\<close> raises on a closed buffer. \<open>boot\<close> is the whole
  seconds a worker needs besides the snippet.
\<close>

record host =
  ast_parse :: "string \<Rightarrow> (string \<times> string) option"
  exec_code :: "string \<Rightarrow> namespace \<Rightarrow> process \<Rightarrow> behaviour"
  isdir :: "path \<Rightarrow> bool"
  os_chdir :: "path \<Rightarrow> path \<Rightarrow> (string \<times> string) + path"
  format_exc :: "string \<Rightarrow> string"
  closed_exc :: "string \<times> string"
  boot :: nat

text \<open>
  The world of one caller: its own process, and the number of worker processes started
  so far.
\<close>

record world =
  caller :: process
  spawned :: nat

subsection \<open>Strings\<close>

text \<open>
  A \<open>string\<close> holds the code points below 256. \<^verbatim>\<open>str.strip()\<close> removes the
  characters for which \<^verbatim>\<open>str.isspace\<close> holds from both ends; below 256 these are
  9 to 13, 28 to 32, 133 and 160.
\<close>

definition py_isspace :: "char \<Rightarrow> bool" where
  "py_isspace c =
     (let n = (of_char c :: nat)
      in (9 \<le> n \<and> n \<le> 13) \<or> (28 \<le> n \<and> n \<le> 32) \<or> n = 133 \<or> n = 160)"

definition strip :: "string \<Rightarrow> string" where
  "strip s = rev (dropWhile py_isspace (rev (dropWhile py_isspace s)))"

text \<open>\<^verbatim>\<open>str(n)\<close> of a Python integer: decimal digits, a minus sign when negative.\<close>

fun str_nat :: "nat \<Rightarrow> string" where
  "str_nat n =
     (if n < 10 then [char_of (48 + n)]
      else str_nat (n div 10) @ [char_of (48 + n mod 10)])"

definition str_int :: "int \<Rightarrow> string" where
  "str_int i = (if i < 0 then CHR ''-'' # str_nat (nat (- i)) else str_nat (nat i))"

text \<open>Python's truth value of an \<^verbatim>\<open>Optional[str]\<close>: \<^verbatim>\<open>None\<close> and \<^verbatim>\<open>""\<close> are false.\<close>

fun truthy :: "string option \<Rightarrow> bool" where
  "truthy None = False"
| "truthy (Some s) = (s \<noteq> [])"

subsection \<open>The worker: \<^verbatim>\<open>_run_code\<close>\<close>

text \<open>
  The state local to one run of \<^verbatim>\<open>_run_code\<close>: the worker's process, the namespace
  given to \<^verbatim>\<open>exec\<close>, and the two \<^verbatim>\<open>StringIO\<close> buffers, each with its text and
  whether it has been closed.
\<close>

record wstate =
  wproc :: process
  globals :: namespace
  output_buffer :: string
  error_buffer :: string
  output_closed :: bool
  error_closed :: bool

text \<open>
  A write to a stream lands in the buffer the stream is bound to, as long as that buffer
  is open; closing a stream closes the buffer it is bound to.
\<close>

fun write_stream :: "stream \<Rightarrow> string \<Rightarrow> wstate \<Rightarrow> wstate" where
  "write_stream Console s ws = ws"
| "write_stream Output_buffer s ws =
     (if output_closed ws then ws else ws\<lparr>output_buffer := output_buffer ws @ s\<rparr>)"
| "write_stream Error_buffer s ws =
     (if error_closed ws then ws else ws\<lparr>error_buffer := error_buffer ws @ s\<rparr>)"

fun close_stream :: "stream \<Rightarrow> wstate \<Rightarrow> wstate" where
  "close_stream Console ws = ws"
| "close_stream Output_buffer ws = ws\<lparr>output_closed := True\<rparr>"
| "close_stream Error_buffer ws = ws\<lparr>error_closed := True\<rparr>"

fun apply_effect :: "effect \<Rightarrow> wstate \<Rightarrow> wstate" where
  "apply_effect (Print s) ws = write_stream (sys_stdout (wproc ws)) s ws"
| "apply_effect (Print_err s) ws = write_stream (sys_stderr (wproc ws)) s ws"
| "apply_effect (Chdir d) ws = ws\<lparr>wproc := (wproc ws)\<lparr>cwd := d\<rparr>\<rparr>"
| "apply_effect (Bind n v) ws = ws\<lparr>globals := AList.update n v (globals ws)\<rparr>"
| "apply_effect Close_stdout ws = close_stream (sys_stdout (wproc ws)) ws"
| "apply_effect Close_stderr ws = close_stream (sys_stderr (wproc ws)) ws"

fun apply_effects :: "effect list \<Rightarrow> wstate \<Rightarrow> wstate" where
  "apply_effects [] ws = ws"
| "apply_effects (e # es) ws = apply_effects es (apply_effect e ws)"

text \<open>\<^verbatim>\<open>StringIO.getvalue()\<close>: the text, or \<open>None\<close> for the \<^verbatim>\<open>ValueError\<close> of a closed buffer.\<close>

definition getvalue :: "bool \<Rightarrow> string \<Rightarrow> string option" where
  "getvalue closed content = (if closed then None else Some content)"

text \<open>The message of the \<^verbatim>\<open>FileNotFoundError\<close> of line 57.\<close>

definition wd_message :: "path \<Rightarrow> string" where
  "wd_message d =
     ''Specified working_directory '' @ [CHR 0x27] @ d @ [CHR 0x27]
       @ '' does not exist or is not a directory.''"

text \<open>
  Line 59: \<^verbatim>\<open>exec\<close> in the state \<open>ws\<close>. The result is the state reached, the flag
  \<^verbatim>\<open>cwd_changed_successfully\<close> (handed through), how the call ends, the seconds it
  takes and how long the process lingers afterwards.
\<close>

definition exec_step ::
  "host \<Rightarrow> string \<Rightarrow> bool \<Rightarrow> wstate
     \<Rightarrow> wstate \<times> bool \<times> ending \<times> nat \<times> nat option" where
  "exec_step h code changed ws =
     (let b = exec_code h code (globals ws) (wproc ws)
      in (apply_effects (effects b) ws, changed, ending b, seconds b, lingers b))"

text \<open>
  The \<^verbatim>\<open>try\<close> block up to the end of \<^verbatim>\<open>exec\<close> (lines 50 to 59). The
  \<^verbatim>\<open>FileNotFoundError\<close> of line 57 and an \<^verbatim>\<open>OSError\<close> of \<^verbatim>\<open>os.chdir\<close> at line 53 are
  of class \<^verbatim>\<open>Exception\<close>, raised before \<^verbatim>\<open>exec\<close> is reached and before
  \<^verbatim>\<open>cwd_changed_successfully\<close> is set.
\<close>

definition try_body ::
  "host \<Rightarrow> string \<Rightarrow> string option \<Rightarrow> wstate
     \<Rightarrow> wstate \<times> bool \<times> ending \<times> nat \<times> nat option" where
  "try_body h code working_directory ws =
     (if truthy working_directory then
        (if isdir h (the working_directory) then
           (case os_chdir h (cwd (wproc ws)) (the working_directory) of
              Inr c \<Rightarrow> exec_step h code True (ws\<lparr>wproc := (wproc ws)\<lparr>cwd := c\<rparr>\<rparr>)
            | Inl (m, tb) \<Rightarrow> (ws, False, Raises m tb, 0, Some 0))
         else
           (ws, False,
            Raises (wd_message (the working_directory))
                   (format_exc h (wd_message (the working_directory))), 0, Some 0))
      else exec_step h code False ws)"

text \<open>
  The \<^verbatim>\<open>except Exception\<close> clause (lines 66 to 72) for an exception with
  \<^verbatim>\<open>str(e) = m\<close> (\<open>None\<close> when \<^verbatim>\<open>str(e)\<close> raises) and traceback \<open>tb\<close>: the
  shared dictionary after it. An exception raised inside the clause (by \<^verbatim>\<open>getvalue\<close>
  at line 66 or 68, by \<^verbatim>\<open>str(e)\<close> at line 69) leaves the clause, with the dictionary as
  written so far.
\<close>

definition except_clause :: "wstate \<Rightarrow> string option \<Rightarrow> string \<Rightarrow> result \<Rightarrow> result" where
  "except_clause ws m tb rd =
     (case getvalue (error_closed ws) (error_buffer ws) of
        None \<Rightarrow> rd
      | Some stderr_capture \<Rightarrow>
          (case getvalue (output_closed ws) (output_buffer ws) of
             None \<Rightarrow> rd
           | Some out \<Rightarrow>
               (let rd1 = rd\<lparr>stdout := out\<rparr>
                in case m of
                     None \<Rightarrow> rd1
                   | Some msg \<Rightarrow>
                       (let rd2 = rd1\<lparr>stderr := strip (stderr_capture @ [CHR 0x0A] @ msg
                                                         @ [CHR 0x0A] @ tb)\<rparr>
                        in rd2\<lparr>exit_code := 1, success := False,
                               observation := stderr rd2\<rparr>))))"

text \<open>
  Lines 60 to 64, after \<^verbatim>\<open>exec\<close> has returned. They are inside the \<^verbatim>\<open>try\<close>: a
  \<^verbatim>\<open>ValueError\<close> of \<^verbatim>\<open>getvalue\<close> at line 60 or 61 enters the \<^verbatim>\<open>except\<close> clause.
\<close>

definition success_clause :: "host \<Rightarrow> wstate \<Rightarrow> result \<Rightarrow> result" where
  "success_clause h ws rd =
     (case getvalue (output_closed ws) (output_buffer ws) of
        None \<Rightarrow> except_clause ws (Some (fst (closed_exc h))) (snd (closed_exc h)) rd
      | Some out \<Rightarrow>
          (let rd1 = rd\<lparr>stdout := out\<rparr>
           in case getvalue (error_closed ws) (error_buffer ws) of
                None \<Rightarrow>
                  except_clause ws (Some (fst (closed_exc h))) (snd (closed_exc h)) rd1
              | Some err \<Rightarrow>
                  (let rd2 = rd1\<lparr>stderr := err, exit_code := 0, success := True\<rparr>
                   in rd2\<lparr>observation := stdout rd2\<rparr>)))"

text \<open>
  What one run of \<^verbatim>\<open>_run_code\<close> leaves: the final local state, the shared dictionary
  \<^verbatim>\<open>result_dict\<close>, how the \<^verbatim>\<open>try\<close> block ended up to \<^verbatim>\<open>exec\<close>, and the whole
  seconds the worker process lived (\<open>None\<close>: it does not end by itself).
\<close>

record worker_run =
  final :: wstate
  result_dict :: result
  ended :: ending
  took :: "nat option"

text \<open>
  The \<^verbatim>\<open>finally\<close> clause (lines 74 to 77). \<^verbatim>\<open>os.chdir(original_cwd)\<close> is taken to
  succeed; nothing the caller sees depends on it.
\<close>

definition finally_clause ::
  "stream \<Rightarrow> stream \<Rightarrow> path \<Rightarrow> bool \<Rightarrow> wstate \<Rightarrow> wstate" where
  "finally_clause original_stdout original_stderr original_cwd cwd_changed_successfully ws =
     (let p = (wproc ws)\<lparr>sys_stdout := original_stdout, sys_stderr := original_stderr\<rparr>
      in ws\<lparr>wproc := (if cwd_changed_successfully then p\<lparr>cwd := original_cwd\<rparr> else p)\<rparr>)"

text \<open>
  \<^verbatim>\<open>_run_code\<close>. An exception outside \<^verbatim>\<open>Exception\<close> passes the \<^verbatim>\<open>except\<close> clause
  and runs \<^verbatim>\<open>finally\<close>; a process that is killed or hangs runs neither. A worker
  whose \<^verbatim>\<open>_run_code\<close> is over lives on for as long as the snippet's threads keep it.
\<close>

definition run_code ::
  "host \<Rightarrow> string \<Rightarrow> result \<Rightarrow> namespace \<Rightarrow> string option \<Rightarrow> process \<Rightarrow> worker_run" where
  "run_code h code rd safe_globals working_directory p =
     (let original_stdout = sys_stdout p;
          original_stderr = sys_stderr p;
          original_cwd = cwd p;
          ws0 = \<lparr>wproc = p\<lparr>sys_stdout := Output_buffer, sys_stderr := Error_buffer\<rparr>,
                 globals = safe_globals, output_buffer = [], error_buffer = [],
                 output_closed = False, error_closed = False\<rparr>;
          (ws, changed, e, t, lg) = try_body h code working_directory ws0;
          fin = finally_clause original_stdout original_stderr original_cwd changed;
          over = map_option (\<lambda>l. boot h + t + l) lg
      in case e of
           Returns \<Rightarrow>
             \<lparr>final = fin ws, result_dict = success_clause h ws rd, ended = e, took = over\<rparr>
         | Raises m tb \<Rightarrow>
             \<lparr>final = fin ws, result_dict = except_clause ws (Some m) tb rd, ended = e,
              took = over\<rparr>
         | Raises_unprintable tb \<Rightarrow>
             \<lparr>final = fin ws, result_dict = except_clause ws None tb rd, ended = e,
              took = over\<rparr>
         | Exits \<Rightarrow> \<lparr>final = fin ws, result_dict = rd, ended = e, took = over\<rparr>
         | Killed \<Rightarrow> \<lparr>final = ws, result_dict = rd, ended = e, took = Some (boot h + t)\<rparr>
         | Hangs \<Rightarrow> \<lparr>final = ws, result_dict = rd, ended = e, took = None\<rparr>)"

subsection \<open>The caller: \<^verbatim>\<open>execute\<close>\<close>

text \<open>The dictionary the manager holds before the worker starts (line 110).\<close>

definition initial_result :: result where
  "initial_result =
     \<lparr>stdout = [], stderr = [], exit_code = - 1, success = False, observation = []\<rparr>"

text \<open>
  Lines 111 to 114. Both branches give a dictionary with the one key
  \<^verbatim>\<open>__builtins__\<close>, bound to the built-in names of the calling process; the worker
  is another process, so it holds a copy in either case.
\<close>

definition safe_globals_of :: "process \<Rightarrow> namespace" where
  "safe_globals_of p = [(''__builtins__'', PyDict (builtins p))]"

text \<open>
  \<^verbatim>\<open>proc.join(timeout)\<close> followed by \<^verbatim>\<open>proc.is_alive()\<close>. A worker process that
  lives \<open>n\<close> whole seconds and a fraction has ended when the wait is over exactly if
  \<open>n < timeout\<close>.
\<close>

definition is_alive :: "int \<Rightarrow> worker_run \<Rightarrow> bool" where
  "is_alive timeout r = (case took r of None \<Rightarrow> True | Some n \<Rightarrow> timeout \<le> int n)"

definition timeout_message :: "int \<Rightarrow> string option \<Rightarrow> string" where
  "timeout_message timeout working_directory =
     ''Execution timeout after '' @ str_int timeout @ '' seconds''
       @ (if truthy working_directory
          then '' (in working_directory: '' @ [CHR 0x27] @ the working_directory
                 @ [CHR 0x27] @ '')''
          else [])"

text \<open>
  The worker of a call: \<^verbatim>\<open>_run_code\<close> in a new process that starts as a copy of the
  caller's.
\<close>

definition worker :: "host \<Rightarrow> world \<Rightarrow> string \<Rightarrow> string option \<Rightarrow> worker_run" where
  "worker h w code working_directory =
     run_code h code initial_result (safe_globals_of (caller w)) working_directory (caller w)"

text \<open>
  \<^verbatim>\<open>execute\<close>, lines 96 to 132: the result and the world after the call. The log
  entry of line 99 and the manager process are left out; \<^verbatim>\<open>proc.terminate()\<close>
  ends the worker and leaves the caller as it is.
\<close>

definition execute ::
  "host \<Rightarrow> world \<Rightarrow> string \<Rightarrow> int \<Rightarrow> string option \<Rightarrow> result \<times> world" where
  "execute h w code timeout working_directory =
     (case ast_parse h code of
        Some (m, tb) \<Rightarrow>
          (let error_details = ''SyntaxError: '' @ m @ [CHR 0x0A] @ tb
           in (\<lparr>stdout = [], stderr = error_details, exit_code = 1, success = False,
                observation = error_details\<rparr>, w))
      | None \<Rightarrow>
          (let r = worker h w code working_directory;
               w' = w\<lparr>spawned := Suc (spawned w)\<rparr>
           in if is_alive timeout r then
                (let m = timeout_message timeout working_directory
                 in (\<lparr>stdout = [], stderr = m, exit_code = 1, success = False,
                      observation = m\<rparr>, w'))
              else (result_dict r, w')))"

subsection \<open>Notions the properties are stated with\<close>

text \<open>
  The worker reaches \<^verbatim>\<open>exec\<close>: no working directory is given, or the one given is a
  directory and \<^verbatim>\<open>os.chdir\<close> into it succeeds.
\<close>

definition reaches_exec :: "host \<Rightarrow> process \<Rightarrow> string option \<Rightarrow> bool" where
  "reaches_exec h p working_directory =
     (if truthy working_directory
      then isdir h (the working_directory)
           \<and> (case os_chdir h (cwd p) (the working_directory) of
                Inr c \<Rightarrow> True | Inl e \<Rightarrow> False)
      else True)"

text \<open>
  The process in which \<^verbatim>\<open>exec\<close> starts: the caller's copy with both streams
  redirected and, when a working directory is given, moved there.
\<close>

definition exec_process :: "host \<Rightarrow> process \<Rightarrow> string option \<Rightarrow> process" where
  "exec_process h p working_directory =
     (let q = p\<lparr>sys_stdout := Output_buffer, sys_stderr := Error_buffer\<rparr>
      in if truthy working_directory
         then (case os_chdir h (cwd p) (the working_directory) of
                 Inr c \<Rightarrow> q\<lparr>cwd := c\<rparr> | Inl e \<Rightarrow> q)
         else q)"

text \<open>What the snippet of a call does, when the worker reaches \<^verbatim>\<open>exec\<close>.\<close>

definition snippet :: "host \<Rightarrow> world \<Rightarrow> string \<Rightarrow> string option \<Rightarrow> behaviour" where
  "snippet h w code working_directory =
     exec_code h code (safe_globals_of (caller w))
       (exec_process h (caller w) working_directory)"

text \<open>The state of the worker when \<^verbatim>\<open>exec\<close> is over.\<close>

definition exec_state :: "host \<Rightarrow> world \<Rightarrow> string \<Rightarrow> string option \<Rightarrow> wstate" where
  "exec_state h w code working_directory =
     apply_effects (effects (snippet h w code working_directory))
       \<lparr>wproc = exec_process h (caller w) working_directory,
        globals = safe_globals_of (caller w), output_buffer = [], error_buffer = [],
        output_closed = False, error_closed = False\<rparr>"



text \<open>A string starts with another; a string occurs inside another.\<close>

fun starts_with :: "string \<Rightarrow> string \<Rightarrow> bool" where
  "starts_with s [] = True"
| "starts_with [] (c # t) = False"
| "starts_with (a # s) (c # t) = (a = c \<and> starts_with s t)"

fun contains :: "string \<Rightarrow> string \<Rightarrow> bool" where
  "contains [] t = (t = [])"
| "contains (a # s) t = (starts_with (a # s) t \<or> contains s t)"

subsection \<open>A host to run examples on\<close>

text \<open>
  A small host that knows a handful of snippets, with what Python does on them.
  Tracebacks are shortened. Only \<^verbatim>\<open>/tmp\<close> is a directory, and \<^verbatim>\<open>os.chdir\<close>
  succeeds.
\<close>

definition demo_traceback :: "string \<Rightarrow> string" where
  "demo_traceback l =
     ''Traceback (most recent call last):'' @ [CHR 0x0A] @ l @ [CHR 0x0A]"

definition demo_exec :: "string \<Rightarrow> namespace \<Rightarrow> process \<Rightarrow> behaviour" where
  "demo_exec code ns p =
     (if code = ''x = 1'' then
        \<lparr>effects = [Bind ''x'' (PyInt 1)], ending = Returns, seconds = 0, lingers = Some 0\<rparr>
      else if code = ''print(x)'' then
        (case map_of ns ''x'' of
           Some (PyInt i) \<Rightarrow>
             \<lparr>effects = [Print (str_int i @ [CHR 0x0A])], ending = Returns, seconds = 0,
              lingers = Some 0\<rparr>
         | _ \<Rightarrow>
             \<lparr>effects = [],
              ending = Raises (''name '' @ [CHR 0x27] @ ''x'' @ [CHR 0x27] @ '' is not defined'')
                        (demo_traceback (''NameError: name '' @ [CHR 0x27] @ ''x'' @ [CHR 0x27]
                           @ '' is not defined'')),
              seconds = 0, lingers = Some 0\<rparr>)
      else if code = ''import os; os.chdir(os.sep); print(os.getcwd())'' then
        \<lparr>effects = [Chdir ''/'', Print (''/'' @ [CHR 0x0A])], ending = Returns, seconds = 0,
         lingers = Some 0\<rparr>
      else if code = ''import sys; print(1); print(2, file=sys.stderr); 1 / 0'' then
        \<lparr>effects = [Print (''1'' @ [CHR 0x0A]), Print_err (''2'' @ [CHR 0x0A])],
         ending = Raises ''division by zero''
                   (demo_traceback ''ZeroDivisionError: division by zero''),
         seconds = 0, lingers = Some 0\<rparr>
      else if code = ''print(1); import sys; sys.exit(0)'' then
        \<lparr>effects = [Print (''1'' @ [CHR 0x0A])], ending = Exits, seconds = 0,
         lingers = Some 0\<rparr>
      else if code = ''print(1); import time; time.sleep(60)'' then
        \<lparr>effects = [Print (''1'' @ [CHR 0x0A])], ending = Returns, seconds = 60,
         lingers = Some 0\<rparr>
      else if code = ''import sys; print(1); sys.stdout.close()'' then
        \<lparr>effects = [Print (''1'' @ [CHR 0x0A]), Close_stdout], ending = Returns, seconds = 0,
         lingers = Some 0\<rparr>
      else if code = ''E = type(chr(69), (Exception,), dict(__str__=lambda s: 1 / 0)); print(1); raise E()'' then
        \<lparr>effects = [Print (''1'' @ [CHR 0x0A])],
         ending = Raises_unprintable (demo_traceback ''E: <exception str() failed>''),
         seconds = 0, lingers = Some 0\<rparr>
      else if code = ''import threading, time; threading.Thread(target=time.sleep, args=(60,)).start(); print(1); 1 / 0'' then
        \<lparr>effects = [Print (''1'' @ [CHR 0x0A])],
         ending = Raises ''division by zero''
                   (demo_traceback ''ZeroDivisionError: division by zero''),
         seconds = 0, lingers = Some 60\<rparr>
      else \<lparr>effects = [], ending = Returns, seconds = 0, lingers = Some 0\<rparr>)"

definition demo_host :: host where
  "demo_host =
     \<lparr>ast_parse = (\<lambda>code. if code = ''1 +''
                         then Some (''invalid syntax (<unknown>, line 1)'',
                                    demo_traceback ''SyntaxError: invalid syntax'')
                         else None),
      exec_code = demo_exec,
      isdir = (\<lambda>d. d = ''/tmp''),
      os_chdir = (\<lambda>c d. Inr (if starts_with d ''/'' then d else c @ ''/'' @ d)),
      format_exc = (\<lambda>m. demo_traceback (''FileNotFoundError: '' @ m)),
      closed_exc = (''I/O operation on closed file'',
                    demo_traceback ''ValueError: I/O operation on closed file''),
      boot = 0\<rparr>"

definition demo_world :: world where
  "demo_world =
     \<lparr>caller = \<lparr>cwd = ''/home/agent'', sys_stdout = Console, sys_stderr = Console,
                 builtins = [(''print'', PyStr ''<built-in function print>'')]\<rparr>,
      spawned = 0\<rparr>"

section \<open>Properties\<close>

subsection \<open>What a worker leaves\<close>






lemma worker_bad_wd:
  assumes "truthy wd" and "\<not> isdir h (the wd)"
  shows "result_dict (worker h w code wd) =
           \<lparr>stdout = [],
            stderr = strip (CHR 0x0A # wd_message (the wd) @ CHR 0x0A
                             # format_exc h (wd_message (the wd))),
            exit_code = 1, success = False,
            observation = strip (CHR 0x0A # wd_message (the wd) @ CHR 0x0A
                                  # format_exc h (wd_message (the wd)))\<rparr>"
    and "ended (worker h w code wd) =
           Raises (wd_message (the wd)) (format_exc h (wd_message (the wd)))"
    and "took (worker h w code wd) = Some (boot h)"
  using assms
  by (simp_all add: worker_def run_code_def try_body_def except_clause_def getvalue_def
      initial_result_def Let_def)

lemma worker_silent:
  assumes "ended (worker h w code wd) = Exits \<or> ended (worker h w code wd) = Killed"
  shows "result_dict (worker h w code wd) = initial_result"
  using assms
  by (auto simp add: worker_def run_code_def Let_def split: prod.splits ending.splits)

lemma closed_final:
  "output_closed (finally_clause a b c d ws) = output_closed ws"
  "error_closed (finally_clause a b c d ws) = error_closed ws"
  by (simp_all add: finally_clause_def Let_def)

lemma worker_exec:
  assumes "reaches_exec h (caller w) wd"
  shows "ended (worker h w code wd) = ending (snippet h w code wd)"
    and "took (worker h w code wd) =
          (case ending (snippet h w code wd) of
             Hangs \<Rightarrow> None
           | Killed \<Rightarrow> Some (boot h + seconds (snippet h w code wd))
           | _ \<Rightarrow> map_option (\<lambda>l. boot h + seconds (snippet h w code wd) + l)
                    (lingers (snippet h w code wd)))"
    and "result_dict (worker h w code wd) =
          (case ending (snippet h w code wd) of
             Returns \<Rightarrow> success_clause h (exec_state h w code wd) initial_result
           | Raises m tb \<Rightarrow> except_clause (exec_state h w code wd) (Some m) tb initial_result
           | Raises_unprintable tb \<Rightarrow>
               except_clause (exec_state h w code wd) None tb initial_result
           | _ \<Rightarrow> initial_result)"
    and "output_closed (final (worker h w code wd)) = output_closed (exec_state h w code wd)"
    and "error_closed (final (worker h w code wd)) = error_closed (exec_state h w code wd)"
proof -
  let ?b = "snippet h w code wd"
  let ?S = "exec_state h w code wd"
  have tb: "try_body h code wd
           \<lparr>wproc = (caller w)\<lparr>sys_stdout := Output_buffer, sys_stderr := Error_buffer\<rparr>,
            globals = safe_globals_of (caller w), output_buffer = [], error_buffer = [],
            output_closed = False, error_closed = False\<rparr> =
         (?S, truthy wd, ending ?b, seconds ?b, lingers ?b)"
    using assms(1)
    by (auto simp add: exec_state_def try_body_def exec_step_def exec_process_def snippet_def
        reaches_exec_def Let_def split: sum.splits if_splits)
  show "ended (worker h w code wd) = ending ?b"
    by (simp add: worker_def run_code_def Let_def tb split: ending.splits)
  show "took (worker h w code wd) =
          (case ending ?b of
             Hangs \<Rightarrow> None
           | Killed \<Rightarrow> Some (boot h + seconds ?b)
           | _ \<Rightarrow> map_option (\<lambda>l. boot h + seconds ?b + l) (lingers ?b))"
    by (simp add: worker_def run_code_def Let_def tb split: ending.splits)
  show "result_dict (worker h w code wd) =
          (case ending ?b of
             Returns \<Rightarrow> success_clause h ?S initial_result
           | Raises m tb \<Rightarrow> except_clause ?S (Some m) tb initial_result
           | Raises_unprintable tb \<Rightarrow> except_clause ?S None tb initial_result
           | _ \<Rightarrow> initial_result)"
    by (simp add: worker_def run_code_def Let_def tb split: ending.splits)
  show "output_closed (final (worker h w code wd)) = output_closed ?S"
    by (simp add: worker_def run_code_def Let_def tb closed_final split: ending.splits)
  show "error_closed (final (worker h w code wd)) = error_closed ?S"
    by (simp add: worker_def run_code_def Let_def tb closed_final split: ending.splits)
qed




subsection \<open>The caller's working directory\<close>

text \<open>
  C1. The working directory of the calling process after \<^verbatim>\<open>execute\<close> returns is the one
  before the call, for every snippet, timeout and working directory, whatever the outcome
  (syntax error, timeout, exception, bad directory, normal end): every \<^verbatim>\<open>os.chdir\<close>,
  the tool's own and the snippet's, happens in the worker process.
\<close>

theorem caller_cwd_preserved:
  "cwd (caller (snd (execute h w code timeout wd))) = cwd (caller w)"
  by (simp add: execute_def Let_def split: option.splits prod.splits)

text \<open>The definitions an example on the small host unfolds.\<close>

lemmas demo_defs = execute_def worker_def run_code_def try_body_def exec_step_def
  finally_clause_def except_clause_def success_clause_def getvalue_def
  demo_host_def demo_exec_def demo_world_def demo_traceback_def
  is_alive_def initial_result_def safe_globals_of_def timeout_message_def wd_message_def
  snippet_def exec_process_def exec_state_def reaches_exec_def
  str_int_def strip_def py_isspace_def Let_def

text \<open>
  On the example host: the snippet changes the working directory of its worker to
  \<^verbatim>\<open>/\<close>, and the caller stays where it was.
\<close>

lemma chdir_example:
  "cwd (wproc (final (worker demo_host demo_world
          ''import os; os.chdir(os.sep); print(os.getcwd())'' None))) = ''/''
   \<and> cwd (caller (snd (execute demo_host demo_world
          ''import os; os.chdir(os.sep); print(os.getcwd())'' 5 None))) = ''/home/agent''"
  by (simp add: demo_defs)

subsection \<open>The fields of the result\<close>



subsection \<open>The exit code\<close>



subsection \<open>Timeout\<close>

lemma starts_with_append: "starts_with (t @ post) t"
  by (induction t) simp_all

lemma contains_append: "contains (pre @ t @ post) t"
proof (induction pre)
  case Nil
  show ?case by (cases "t @ post") (use starts_with_append [of t post] in \<open>auto\<close>)
next
  case (Cons a pre)
  then show ?case by simp
qed

lemma contains_timeout: "contains (timeout_message timeout wd) (str_int timeout)"
  unfolding timeout_message_def
  using contains_append [of "''Execution timeout after ''" "str_int timeout"] by simp

lemma contains_timeout_wd: "truthy wd \<Longrightarrow> contains (timeout_message timeout wd) (the wd)"
  unfolding timeout_message_def
  using contains_append
    [of "''Execution timeout after '' @ str_int timeout @ '' seconds''
           @ '' (in working_directory: '' @ [CHR 0x27]"
        "the wd" "[CHR 0x27] @ '')''"]
  by simp

text \<open>
  C4. When the code parses and the worker is still alive after \<^verbatim>\<open>proc.join(timeout)\<close>,
  the result has exit code 1, no success, an empty \<^verbatim>\<open>stdout\<close>, and \<^verbatim>\<open>stderr\<close> and
  \<^verbatim>\<open>observation\<close> both equal to the timeout message; the message holds the decimal
  timeout and, when a working directory is given, that directory. Nothing the worker
  printed is in the result.
\<close>

theorem timeout_result:
  assumes "ast_parse h code = None" and "is_alive timeout (worker h w code wd)"
  shows "fst (execute h w code timeout wd) =
           \<lparr>stdout = [], stderr = timeout_message timeout wd, exit_code = 1,
            success = False, observation = timeout_message timeout wd\<rparr>
         \<and> contains (timeout_message timeout wd) (str_int timeout)
         \<and> (truthy wd \<longrightarrow> contains (timeout_message timeout wd) (the wd))"
  using assms by (simp add: execute_def Let_def contains_timeout contains_timeout_wd)

text \<open>
  On the example host: the snippet prints a line and then sleeps for a minute; with a
  timeout of 5 seconds the printed line is in the worker's buffer and not in the result.
\<close>

theorem timeout_result_witness:
  "ast_parse demo_host ''print(1); import time; time.sleep(60)'' = None
   \<and> is_alive 5 (worker demo_host demo_world
        ''print(1); import time; time.sleep(60)'' (Some ''/tmp''))
   \<and> output_buffer (final (worker demo_host demo_world
        ''print(1); import time; time.sleep(60)'' (Some ''/tmp''))) = ''1'' @ [CHR 0x0A]
   \<and> fst (execute demo_host demo_world
        ''print(1); import time; time.sleep(60)'' 5 (Some ''/tmp'')) =
       \<lparr>stdout = [],
        stderr = ''Execution timeout after 5 seconds (in working_directory: ''
                   @ [CHR 0x27] @ ''/tmp'' @ [CHR 0x27] @ '')'',
        exit_code = 1, success = False,
        observation = ''Execution timeout after 5 seconds (in working_directory: ''
                        @ [CHR 0x27] @ ''/tmp'' @ [CHR 0x27] @ '')''\<rparr>"
proof -
  have p: "ast_parse demo_host ''print(1); import time; time.sleep(60)'' = None"
    by (simp add: demo_host_def)
  have a: "is_alive 5 (worker demo_host demo_world
             ''print(1); import time; time.sleep(60)'' (Some ''/tmp''))"
    by (simp add: demo_defs)
  have b: "output_buffer (final (worker demo_host demo_world
             ''print(1); import time; time.sleep(60)'' (Some ''/tmp''))) = ''1'' @ [CHR 0x0A]"
    by (simp add: demo_defs)
  have m: "timeout_message 5 (Some ''/tmp'') =
             ''Execution timeout after 5 seconds (in working_directory: ''
               @ [CHR 0x27] @ ''/tmp'' @ [CHR 0x27] @ '')''"
    by code_simp
  from timeout_result [OF p a] p a b m show ?thesis by simp
qed

subsection \<open>Syntax errors\<close>

text \<open>
  C5. When \<^verbatim>\<open>ast.parse\<close> raises \<^verbatim>\<open>SyntaxError\<close>, the result has exit code 1, no
  success, an empty \<^verbatim>\<open>stdout\<close>, and \<^verbatim>\<open>stderr\<close> and \<^verbatim>\<open>observation\<close> that contain
  the message of the error; no worker is started (the world is as before).
\<close>

theorem syntax_error_result:
  assumes "ast_parse h code = Some (m, tb)"
  shows "fst (execute h w code timeout wd) =
           \<lparr>stdout = [], stderr = ''SyntaxError: '' @ m @ [CHR 0x0A] @ tb, exit_code = 1,
            success = False, observation = ''SyntaxError: '' @ m @ [CHR 0x0A] @ tb\<rparr>
         \<and> contains (stderr (fst (execute h w code timeout wd))) m
         \<and> contains (observation (fst (execute h w code timeout wd))) m
         \<and> spawned (snd (execute h w code timeout wd)) = spawned w
         \<and> snd (execute h w code timeout wd) = w"
  using assms contains_append [of "''SyntaxError: ''" m "[CHR 0x0A] @ tb"]
  by (simp add: execute_def Let_def)

theorem syntax_error_result_witness:
  "ast_parse demo_host ''1 +'' =
     Some (''invalid syntax (<unknown>, line 1)'',
           demo_traceback ''SyntaxError: invalid syntax'')
   \<and> success (fst (execute demo_host demo_world ''1 +'' 5 None)) = False
   \<and> exit_code (fst (execute demo_host demo_world ''1 +'' 5 None)) = 1
   \<and> stdout (fst (execute demo_host demo_world ''1 +'' 5 None)) = []
   \<and> contains (stderr (fst (execute demo_host demo_world ''1 +'' 5 None)))
        ''invalid syntax (<unknown>, line 1)''
   \<and> spawned (snd (execute demo_host demo_world ''1 +'' 5 None)) = 0"
proof -
  have p: "ast_parse demo_host ''1 +'' =
             Some (''invalid syntax (<unknown>, line 1)'',
                   demo_traceback ''SyntaxError: invalid syntax'')"
    by (simp add: demo_host_def)
  have s: "spawned demo_world = 0" by (simp add: demo_world_def)
  from syntax_error_result [OF p, of demo_world 5 None] p s show ?thesis by simp
qed

text \<open>Code that parses does start a worker.\<close>

lemma spawned_when_parsed:
  "ast_parse h code = None \<Longrightarrow> spawned (snd (execute h w code timeout wd)) = Suc (spawned w)"
  by (simp add: execute_def Let_def)

subsection \<open>Runtime exceptions\<close>




subsection \<open>A worker that reports nothing\<close>

text \<open>
  C10. When the code parses and the worker has ended when the wait is over, by an
  exception outside \<^verbatim>\<open>Exception\<close> (\<^verbatim>\<open>SystemExit\<close>) or by the end of its process,
  then nothing was written to \<^verbatim>\<open>result_dict\<close> and \<^verbatim>\<open>execute\<close> returns the initial
  record: three empty strings, exit code -1, no success.
\<close>

theorem silent_worker_result:
  assumes "ast_parse h code = None"
      and "ended (worker h w code wd) = Exits \<or> ended (worker h w code wd) = Killed"
      and "\<not> is_alive timeout (worker h w code wd)"
  shows "result_dict (worker h w code wd) = initial_result
         \<and> fst (execute h w code timeout wd) =
             \<lparr>stdout = [], stderr = [], exit_code = - 1, success = False, observation = []\<rparr>"
proof -
  from assms(2) have "result_dict (worker h w code wd) = initial_result"
    by (rule worker_silent)
  with assms(1,3) show ?thesis
    by (simp add: execute_def Let_def initial_result_def)
qed

theorem silent_worker_result_witness:
  "ast_parse demo_host ''print(1); import sys; sys.exit(0)'' = None
   \<and> ended (worker demo_host demo_world ''print(1); import sys; sys.exit(0)'' None) = Exits
   \<and> \<not> is_alive 5 (worker demo_host demo_world ''print(1); import sys; sys.exit(0)'' None)
   \<and> fst (execute demo_host demo_world ''print(1); import sys; sys.exit(0)'' 5 None) =
       \<lparr>stdout = [], stderr = [], exit_code = - 1, success = False, observation = []\<rparr>"
proof -
  let ?code = "''print(1); import sys; sys.exit(0)''"
  have p: "ast_parse demo_host ?code = None"
    by (simp add: demo_host_def)
  have e: "ended (worker demo_host demo_world ?code None) = Exits"
    by (simp add: demo_defs)
  have a: "\<not> is_alive 5 (worker demo_host demo_world ?code None)"
    by (simp add: demo_defs)
  from silent_worker_result [OF p disjI1 [OF e] a] p e a show ?thesis
    by simp
qed

text \<open>When the worker reaches \<^verbatim>\<open>exec\<close>, these two endings are the snippet's own.\<close>

lemma silent_endings:
  assumes "reaches_exec h (caller w) wd"
  shows "(ended (worker h w code wd) = Exits) = (ending (snippet h w code wd) = Exits)"
    and "(ended (worker h w code wd) = Killed) = (ending (snippet h w code wd) = Killed)"
  using worker_exec(1) [OF assms] by simp_all

subsection \<open>A working directory that is no directory\<close>

text \<open>
  Stripping keeps a text that starts after one newline and neither begins nor ends with
  white space; the message of line 57 is such a text.
\<close>

lemma strip_keeps:
  assumes "m \<noteq> []" and "\<not> py_isspace (hd m)" and "\<not> py_isspace (last m)"
  shows "\<exists>r. strip (CHR 0x0A # m @ rest) = m @ r"
proof -
  have nl: "py_isspace (CHR 0x0A)"
    by (simp add: py_isspace_def)
  from assms(1,2) have lead: "dropWhile py_isspace (m @ rest) = m @ rest"
    by (cases m) simp_all
  from assms(1,3) have trail: "dropWhile py_isspace (rev m) = rev m"
    by (cases "rev m") (simp_all add: hd_rev [symmetric])
  have "\<exists>r. dropWhile py_isspace (rev rest @ rev m) = r @ rev m"
    by (simp add: dropWhile_append trail)
  then obtain r where "dropWhile py_isspace (rev (m @ rest)) = r @ rev m"
    by auto
  then have "strip (CHR 0x0A # m @ rest) = m @ rev r"
    by (simp add: strip_def nl lead)
  then show ?thesis ..
qed

lemma wd_message_ends:
  "wd_message d \<noteq> []" "\<not> py_isspace (hd (wd_message d))" "\<not> py_isspace (last (wd_message d))"
  by (simp_all add: wd_message_def py_isspace_def)

lemma contains_wd_diagnostic:
  "contains (strip (CHR 0x0A # wd_message d @ CHR 0x0A # tb)) d"
proof -
  obtain r where r: "strip (CHR 0x0A # wd_message d @ CHR 0x0A # tb) = wd_message d @ r"
    using strip_keeps [OF wd_message_ends, of d "CHR 0x0A # tb"] by auto
  have m: "wd_message d @ r =
             (''Specified working_directory '' @ [CHR 0x27]) @ d @
             ([CHR 0x27] @ '' does not exist or is not a directory.'' @ r)"
    by (simp add: wd_message_def)
  show ?thesis
    unfolding r m by (rule contains_append)
qed

text \<open>
  C7, as stated, fails at three inputs. With code that does not parse, \<^verbatim>\<open>execute\<close>
  returns the syntax error before any worker looks at the directory, and the diagnostic
  does not name the path. With the empty string as working directory, which is no
  directory, \<^verbatim>\<open>if working_directory:\<close> is false, the check is skipped and the
  snippet runs to success. With a timeout of 0 the worker is still alive after the wait,
  and the result carries the timeout message, not the diagnostic of the exception path.
\<close>

theorem invalid_wd_counterexample:
  "ast_parse demo_host ''1 +'' \<noteq> None
   \<and> \<not> isdir demo_host ''/nope''
   \<and> \<not> contains (stderr (fst (execute demo_host demo_world ''1 +'' 5 (Some ''/nope''))))
          ''/nope''
   \<and> \<not> isdir demo_host []
   \<and> ast_parse demo_host ''x = 1'' = None
   \<and> success (fst (execute demo_host demo_world ''x = 1'' 5 (Some []))) = True
   \<and> exit_code (fst (execute demo_host demo_world ''x = 1'' 5 (Some []))) = 0
   \<and> is_alive 0 (worker demo_host demo_world ''x = 1'' (Some ''/nope''))
   \<and> \<not> contains (stderr (fst (execute demo_host demo_world ''x = 1'' 0 (Some ''/nope''))))
          ''does not exist''"
  by (simp add: demo_defs)

text \<open>
  C7, amended. When the code parses and the working directory is a non-empty string that
  is no directory, the result has no success, exit code 1, an empty \<^verbatim>\<open>stdout\<close>, and
  \<^verbatim>\<open>observation\<close> equal to \<^verbatim>\<open>stderr\<close>, which contains the path; the result is the
  same whatever \<^verbatim>\<open>exec\<close> would do, so the snippet is not run; and \<^verbatim>\<open>stderr\<close> is the
  text of the exception path for the \<^verbatim>\<open>FileNotFoundError\<close> of line 57 (newline,
  message, newline, traceback, stripped) when the worker has ended after the wait, and
  the timeout message otherwise.
\<close>

theorem invalid_wd_result:
  assumes "ast_parse h code = None" and "wd = Some d" and "d \<noteq> []" and "\<not> isdir h d"
  shows "success (fst (execute h w code timeout wd)) = False
         \<and> exit_code (fst (execute h w code timeout wd)) = 1
         \<and> stdout (fst (execute h w code timeout wd)) = []
         \<and> observation (fst (execute h w code timeout wd))
             = stderr (fst (execute h w code timeout wd))
         \<and> contains (stderr (fst (execute h w code timeout wd))) d
         \<and> execute (h\<lparr>exec_code := f\<rparr>) w code timeout wd = execute h w code timeout wd
         \<and> stderr (fst (execute h w code timeout wd))
             = (if is_alive timeout (worker h w code wd) then timeout_message timeout wd
                else strip (CHR 0x0A # wd_message d @ CHR 0x0A # format_exc h (wd_message d)))"
proof -
  have t: "truthy wd" and n: "\<not> isdir h (the wd)"
    using assms by simp_all
  note bad = worker_bad_wd [OF t n, of w code]
  have same: "worker (h\<lparr>exec_code := f\<rparr>) w code wd = worker h w code wd"
    using t n by (simp add: worker_def run_code_def try_body_def Let_def)
  have ex: "execute (h\<lparr>exec_code := f\<rparr>) w code timeout wd = execute h w code timeout wd"
    using assms(1) by (simp add: execute_def same)
  have c1: "contains (timeout_message timeout wd) d"
    using contains_timeout_wd [OF t, of timeout] assms(2) by simp
  have c2: "contains (strip (CHR 0x0A # wd_message d @ CHR 0x0A # format_exc h (wd_message d))) d"
    by (rule contains_wd_diagnostic)
  show ?thesis
    using assms(1,2) bad(1) c1 c2 ex
    by (simp add: execute_def Let_def)
qed

theorem invalid_wd_result_witness:
  "ast_parse demo_host ''x = 1'' = None
   \<and> \<not> isdir demo_host ''/nope''
   \<and> \<not> is_alive 5 (worker demo_host demo_world ''x = 1'' (Some ''/nope''))
   \<and> success (fst (execute demo_host demo_world ''x = 1'' 5 (Some ''/nope''))) = False
   \<and> exit_code (fst (execute demo_host demo_world ''x = 1'' 5 (Some ''/nope''))) = 1
   \<and> contains (stderr (fst (execute demo_host demo_world ''x = 1'' 5 (Some ''/nope''))))
        ''/nope''
   \<and> stderr (fst (execute demo_host demo_world ''x = 1'' 5 (Some ''/nope''))) =
        ''Specified working_directory '' @ [CHR 0x27] @ ''/nope'' @ [CHR 0x27]
          @ '' does not exist or is not a directory.'' @ [CHR 0x0A]
          @ ''Traceback (most recent call last):'' @ [CHR 0x0A]
          @ ''FileNotFoundError: Specified working_directory '' @ [CHR 0x27] @ ''/nope''
          @ [CHR 0x27] @ '' does not exist or is not a directory.''"
proof -
  have p: "ast_parse demo_host ''x = 1'' = None"
    by (simp add: demo_host_def)
  have n: "\<not> isdir demo_host ''/nope''"
    by (simp add: demo_host_def)
  have a: "\<not> is_alive 5 (worker demo_host demo_world ''x = 1'' (Some ''/nope''))"
    by (simp add: demo_defs)
  have s: "strip (CHR 0x0A # wd_message ''/nope'' @ CHR 0x0A
                   # format_exc demo_host (wd_message ''/nope'')) =
        ''Specified working_directory '' @ [CHR 0x27] @ ''/nope'' @ [CHR 0x27]
          @ '' does not exist or is not a directory.'' @ [CHR 0x0A]
          @ ''Traceback (most recent call last):'' @ [CHR 0x0A]
          @ ''FileNotFoundError: Specified working_directory '' @ [CHR 0x27] @ ''/nope''
          @ [CHR 0x27] @ '' does not exist or is not a directory.''"
    by (simp add: demo_defs)
  from invalid_wd_result [OF p refl _ n, of demo_world 5] p n a s show ?thesis
    by simp
qed

subsection \<open>No names from one call in the next\<close>

text \<open>
  C9. After any call, the next call on the same host starts its worker with a namespace
  whose only key is \<^verbatim>\<open>__builtins__\<close>, bound to the built-in names of the caller as
  they were before the first call; no name the first snippet bound is in it. The second
  worker, and so the second result, are what they would be without the first call.
\<close>

theorem fresh_namespace_per_call:
  "safe_globals_of (caller (snd (execute h w code1 timeout1 wd1)))
     = [(''__builtins__'', PyDict (builtins (caller w)))]
   \<and> map fst (safe_globals_of (caller (snd (execute h w code1 timeout1 wd1))))
       = [''__builtins__'']
   \<and> worker h (snd (execute h w code1 timeout1 wd1)) code2 wd2
       = run_code h code2 initial_result [(''__builtins__'', PyDict (builtins (caller w)))]
           wd2 (caller w)
   \<and> worker h (snd (execute h w code1 timeout1 wd1)) code2 wd2 = worker h w code2 wd2
   \<and> fst (execute h (snd (execute h w code1 timeout1 wd1)) code2 timeout2 wd2)
       = fst (execute h w code2 timeout2 wd2)"
proof -
  have c: "caller (snd (execute h w code1 timeout1 wd1)) = caller w"
    by (simp add: execute_def Let_def split: option.splits prod.splits)
  have wk: "worker h (snd (execute h w code1 timeout1 wd1)) code2 wd2 = worker h w code2 wd2"
    by (simp add: worker_def c)
  have r: "fst (execute h (snd (execute h w code1 timeout1 wd1)) code2 timeout2 wd2)
       = fst (execute h w code2 timeout2 wd2)"
    by (simp add: execute_def [of h "snd (execute h w code1 timeout1 wd1)"]
        execute_def [of h w code2] wk Let_def split: option.splits prod.splits)
  show ?thesis
    using wk r by (simp add: c safe_globals_of_def worker_def)
qed

text \<open>
  On the example host: the first snippet binds \<^verbatim>\<open>x\<close> in its worker; the second call
  does not see it and fails with a \<^verbatim>\<open>NameError\<close>.
\<close>

lemma namespace_example:
  "map_of (globals (final (worker demo_host demo_world ''x = 1'' None))) ''x'' = Some (PyInt 1)
   \<and> map_of (safe_globals_of (caller (snd (execute demo_host demo_world ''x = 1'' 5 None))))
        ''x'' = None
   \<and> success (fst (execute demo_host (snd (execute demo_host demo_world ''x = 1'' 5 None))
        ''print(x)'' 5 None)) = False
   \<and> contains (stderr (fst (execute demo_host
        (snd (execute demo_host demo_world ''x = 1'' 5 None)) ''print(x)'' 5 None)))
        (''name '' @ [CHR 0x27] @ ''x'' @ [CHR 0x27] @ '' is not defined'')"
  by (simp add: demo_defs)

end
